theory Spec2Isabelle
  imports Main "HOL-Library.Sublist"
begin

section \<open>The node tester of kubetest2 (pkg/testers/node/node.go)\<close>

subsection \<open>Constants and the Tester struct\<close>

definition target :: string where
  "target = ''test-e2e-node''"

definition ciPrivateKeyEnv :: string where
  "ciPrivateKeyEnv = ''GCE_SSH_PRIVATE_KEY_FILE''"

definition ciPublicKeyEnv :: string where
  "ciPublicKeyEnv = ''GCE_SSH_PUBLIC_KEY_FILE''"

text \<open>
  A \<open>*client.Client\<close> handle of the boskos pool. The client is made by
  \<open>boskos.NewClient\<close> for a server location; the handle carries that location.
\<close>

datatype Client = Client string

text \<open>
  The signal channel \<open>chan struct{}\<close> of the heartbeat goroutine: nothing is ever sent
  on it, so its state is only whether it has been closed.
\<close>

datatype chan = Open | Closed

text \<open>
  The struct \<open>Tester\<close>, field by field. Go's \<open>int\<close> and \<open>time.Duration\<close> (an int64 of
  nanoseconds) are integers; \<open>boskos\<close> is a pointer, \<open>None\<close> being \<open>nil\<close>.
\<close>

record Tester =
  RepoRoot :: string
  GCPProject :: string
  GCPZone :: string
  SkipRegex :: string
  FocusRegex :: string
  ContainerRuntimeEndpoint :: string
  TestArgs :: string
  BoskosAcquireTimeoutSeconds :: int
  BoskosHeartbeatIntervalSeconds :: int
  BoskosLocation :: string
  ImageConfigFile :: string
  Images :: string
  ImageProject :: string
  InstanceType :: string
  InstanceMetadata :: string
  UserDataFile :: string
  Provider :: string
  UseDockerizedBuild :: bool
  TargetBuildArch :: string
  ImageConfigDir :: string
  Parallelism :: int
  GCPProjectType :: string
  RuntimeConfig :: string
  Timeout :: int
  DeleteInstances :: bool
  NodeEnv :: string
  boskos :: "Client option"
  boskosHeartbeatClose :: chan
  privateKey :: string
  sshUser :: string

text \<open>
  \<open>NewDefaultTester\<close>: the fields it does not name hold Go's zero values.
\<close>

definition NewDefaultTester :: Tester where
  "NewDefaultTester = \<lparr>
     RepoRoot = '''',
     GCPProject = '''',
     GCPZone = '''',
     SkipRegex = [CHR 0x5C] @ ''[Flaky'' @ [CHR 0x5C] @ '']|'' @ [CHR 0x5C] @ ''[Slow''
       @ [CHR 0x5C] @ '']|'' @ [CHR 0x5C] @ ''[Serial'' @ [CHR 0x5C] @ '']'',
     FocusRegex = '''',
     ContainerRuntimeEndpoint = '''',
     TestArgs = '''',
     BoskosAcquireTimeoutSeconds = 5 * 60,
     BoskosHeartbeatIntervalSeconds = 5 * 60,
     BoskosLocation = ''http://boskos.test-pods.svc.cluster.local.'',
     ImageConfigFile = '''',
     Images = '''',
     ImageProject = '''',
     InstanceType = '''',
     InstanceMetadata = '''',
     UserDataFile = '''',
     Provider = ''gce'',
     UseDockerizedBuild = False,
     TargetBuildArch = '''',
     ImageConfigDir = '''',
     Parallelism = 8,
     GCPProjectType = ''gce-project'',
     RuntimeConfig = '''',
     Timeout = 0,
     DeleteInstances = True,
     NodeEnv = '''',
     boskos = None,
     boskosHeartbeatClose = Open,
     privateKey = '''',
     sshUser = ''''
   \<rparr>"

subsection \<open>Formatting of the standard library\<close>

text \<open>\<open>strconv.FormatBool\<close>.\<close>

definition FormatBool :: "bool \<Rightarrow> string" where
  "FormatBool b = (if b then ''true'' else ''false'')"

text \<open>\<open>strconv.Itoa\<close>: the decimal digits, with a minus sign below zero.\<close>

fun nat_digits :: "nat \<Rightarrow> string" where
  "nat_digits n =
     (if n < 10 then [''0123456789'' ! n]
      else nat_digits (n div 10) @ [''0123456789'' ! (n mod 10)])"

declare nat_digits.simps [simp del]

definition Itoa :: "int \<Rightarrow> string" where
  "Itoa i = (if i < 0 then CHR ''-'' # nat_digits (nat (- i)) else nat_digits (nat i))"

subsection \<open>constructArgs\<close>

text \<open>
  \<open>constructArgs\<close>, entry by entry. \<open>time.Duration.String\<close> of the standard library
  is the parameter \<open>Duration_String\<close>; no entry but \<open>TIMEOUT\<close> uses it.
\<close>

definition constructArgs :: "(int \<Rightarrow> string) \<Rightarrow> Tester \<Rightarrow> string list" where
  "constructArgs Duration_String t =
     (let defaultArgs = [''REMOTE=true''];
          argsFromFlags = [
            ''SKIP='' @ SkipRegex t,
            ''FOCUS='' @ FocusRegex t,
            ''CLOUDSDK_CORE_PROJECT='' @ GCPProject t,
            ''ZONE='' @ GCPZone t,
            ''CONTAINER_RUNTIME_ENDPOINT='' @ ContainerRuntimeEndpoint t,
            ''TEST_ARGS='' @ TestArgs t,
            ''NODE_ENV= '' @ NodeEnv t,
            ''DELETE_INSTANCES='' @ FormatBool (DeleteInstances t),
            ''PARALLELISM='' @ Itoa (Parallelism t),
            ''IMAGE_CONFIG_FILE='' @ ImageConfigFile t,
            ''IMAGE_CONFIG_DIR='' @ ImageConfigDir t,
            ''IMAGE_PROJECT='' @ ImageProject t,
            ''IMAGES='' @ Images t,
            ''INSTANCE_METADATA='' @ InstanceMetadata t,
            ''USER_DATA_FILE='' @ UserDataFile t,
            ''INSTANCE_TYPE='' @ InstanceType t,
            ''SSH_USER='' @ sshUser t,
            ''SSH_KEY='' @ privateKey t,
            ''USE_DOCKERIZED_BUILD='' @ FormatBool (UseDockerizedBuild t),
            ''TARGET_BUILD_ARCH='' @ TargetBuildArch t,
            ''TIMEOUT='' @ Duration_String (Timeout t)];
          argsFromFlags = (if RuntimeConfig t \<noteq> ''''
                           then argsFromFlags @ [''RUNTIME_CONFIG='' @ RuntimeConfig t]
                           else argsFromFlags)
      in defaultArgs @ argsFromFlags)"

subsection \<open>The world outside the tester\<close>

text \<open>
  A Go \<open>error\<close> is its message; \<open>nil\<close> is \<open>None\<close>. A call that returns a value and
  an error returns a sum, \<open>Inl\<close> the error.
\<close>

text \<open>
  Modelled from the spec: the commands of \<open>pkg/exec\<close>, whose code is not part of this
  file ("a process-execution primitive that runs synchronously in the configured working
  directory, inherits standard output/error streams"). A command is the program, its
  arguments, its working directory, set by \<open>SetDir\<close>, and whether its output streams are
  those of the calling process, set by \<open>exec.InheritOutput\<close>.
\<close>

record Cmd =
  Path :: string
  Args :: "string list"
  Dir :: string
  InheritsOutput :: bool

definition Command :: "string \<Rightarrow> string list \<Rightarrow> Cmd" where
  "Command name arg = \<lparr>Path = name, Args = arg, Dir = '''', InheritsOutput = False\<rparr>"

definition SetDir :: "Cmd \<Rightarrow> string \<Rightarrow> Cmd" where
  "SetDir cmd d = cmd\<lparr>Dir := d\<rparr>"

definition InheritOutput :: "Cmd \<Rightarrow> Cmd" where
  "InheritOutput cmd = cmd\<lparr>InheritsOutput := True\<rparr>"

text \<open>
  What a run does to the outside, in order: the calls that leave the process, each with
  its arguments and its outcome, and the warnings and errors written to the log (the
  \<open>klog.V\<close> information lines are left out).
\<close>

datatype event =
    EvPrintDefaults
  | EvWarningf string
  | EvErrorf string
  | EvCopyFile string string "string option"
  | EvNewClient string "string + Client"
  | EvAcquire Client string int int "string + string"
  | EvRelease Client "string list" "string option"
  | EvWriteVersionToMetadata string "string option"
  | EvRun Cmd "string option"

text \<open>
  The outcomes of everything \<open>Execute\<close> calls outside this file, each a function of the
  call's arguments: the two flag parsers (their error, and the value of the \<open>help\<close> flag), the
  environment variables, \<open>os.UserHomeDir\<close>, \<open>filepath.Join\<close>, \<open>fs.CopyFile\<close> (on the
  file system, a map from paths to contents), the boskos client, the metadata writer, the
  process runner, the package variable \<open>GitTag\<close> and \<open>time.Duration.String\<close>. The flag
  parsers store the command line into the exported fields of the tester; the tester given
  to \<open>Execute\<close> holds the values they stored.
\<close>

record World =
  gpflag_Parse :: "string option"
  fs_Parse :: "string option"
  helpFlag :: bool
  environ :: "string \<rightharpoonup> string"
  UserHomeDir :: "string + string"
  filepath_Join :: "string list \<Rightarrow> string"
  fs_CopyFile :: "string \<Rightarrow> string \<Rightarrow> (string \<rightharpoonup> string)
                  \<Rightarrow> string option \<times> (string \<rightharpoonup> string)"
  boskos_NewClient :: "string \<Rightarrow> string + Client"
  boskos_Acquire :: "Client \<Rightarrow> string \<Rightarrow> int \<Rightarrow> int \<Rightarrow> string + string"
  boskos_Release :: "Client \<Rightarrow> string list \<Rightarrow> string option"
  testers_WriteVersionToMetadata :: "string \<Rightarrow> string option"
  cmd_Run :: "Cmd \<Rightarrow> string option"
  GitTag :: string
  Duration_String :: "int \<Rightarrow> string"

text \<open>The state a run works on: the tester, the file system and the events so far.\<close>

record state =
  tester :: Tester
  files :: "string \<rightharpoonup> string"
  trace :: "event list"

definition emit :: "event \<Rightarrow> state \<Rightarrow> state" where
  "emit e s = s\<lparr>trace := trace s @ [e]\<rparr>"

text \<open>\<open>os.LookupEnv\<close> and \<open>os.Getenv\<close>: the latter gives the empty string when unset.\<close>

definition LookupEnv :: "World \<Rightarrow> string \<Rightarrow> string option" where
  "LookupEnv w k = environ w k"

definition Getenv :: "World \<Rightarrow> string \<Rightarrow> string" where
  "Getenv w k = (case environ w k of None \<Rightarrow> '''' | Some v \<Rightarrow> v)"

text \<open>\<open>os.Stat\<close> returns no error: there is a file at the path.\<close>

definition Stat :: "state \<Rightarrow> string \<Rightarrow> bool" where
  "Stat s p = (files s p \<noteq> None)"

definition CopyFile :: "World \<Rightarrow> string \<Rightarrow> string \<Rightarrow> state \<Rightarrow> string option \<times> state" where
  "CopyFile w src dst s =
     (case fs_CopyFile w src dst (files s) of
        (err, fs') \<Rightarrow> (err, emit (EvCopyFile src dst err) (s\<lparr>files := fs'\<rparr>)))"

definition NewClient :: "World \<Rightarrow> string \<Rightarrow> state \<Rightarrow> (string + Client) \<times> state" where
  "NewClient w loc s =
     (boskos_NewClient w loc, emit (EvNewClient loc (boskos_NewClient w loc)) s)"

text \<open>
  \<open>time.Duration(n) * time.Second\<close>: an int64 product, which wraps around.
\<close>

definition int64 :: "int \<Rightarrow> int" where
  "int64 x = (x + 2 ^ 63) mod 2 ^ 64 - 2 ^ 63"

definition Seconds :: "int \<Rightarrow> int" where
  "Seconds n = int64 (int64 n * 1000000000)"

definition Acquire :: "World \<Rightarrow> Client \<Rightarrow> string \<Rightarrow> int \<Rightarrow> int \<Rightarrow> state
    \<Rightarrow> (string + string) \<times> state" where
  "Acquire w c ty timeout heartbeat s =
     (boskos_Acquire w c ty timeout heartbeat,
      emit (EvAcquire c ty timeout heartbeat (boskos_Acquire w c ty timeout heartbeat)) s)"

text \<open>
  Modelled from the spec: the stop signal of the heartbeat, which the spec makes
  idempotent ("triggering it more than once must not fault"). It is triggered on the
  channel by \<open>boskos.Release\<close> of \<open>pkg/boskos\<close>, whose code is not part of this file.
\<close>

definition stop_heartbeat :: "chan \<Rightarrow> chan" where
  "stop_heartbeat ch = Closed"

text \<open>
  Modelled from the spec: \<open>boskos.Release\<close> of \<open>pkg/boskos\<close>, whose code is not part of
  this file. It tells the pool that the named resources are free, with the outcome the
  world gives, and triggers the stop signal it was handed.
\<close>

definition Release :: "World \<Rightarrow> Client \<Rightarrow> string list \<Rightarrow> state \<Rightarrow> string option \<times> state" where
  "Release w c names s =
     (boskos_Release w c names,
      emit (EvRelease c names (boskos_Release w c names))
        (s\<lparr>tester := (tester s)\<lparr>boskosHeartbeatClose :=
              stop_heartbeat (boskosHeartbeatClose (tester s))\<rparr>\<rparr>))"

definition WriteVersionToMetadata :: "World \<Rightarrow> string \<Rightarrow> state \<Rightarrow> string option \<times> state" where
  "WriteVersionToMetadata w tag s =
     (testers_WriteVersionToMetadata w tag,
      emit (EvWriteVersionToMetadata tag (testers_WriteVersionToMetadata w tag)) s)"

definition Run :: "World \<Rightarrow> Cmd \<Rightarrow> state \<Rightarrow> string option \<times> state" where
  "Run w cmd s = (cmd_Run w cmd, emit (EvRun cmd (cmd_Run w cmd)) s)"

subsection \<open>validateFlags, maybeSetupSSHKeys, Test\<close>

definition validateFlags :: "Tester \<Rightarrow> string option" where
  "validateFlags t =
     (if RepoRoot t = '''' then Some ''required --repo-root''
      else if GCPZone t = '''' \<and> Provider t = ''gce'' then Some ''required --gcp-zone''
      else None)"

definition maybeSetupSSHKeys :: "World \<Rightarrow> state \<Rightarrow> state" where
  "maybeSetupSSHKeys w s =
     (case UserHomeDir w of
        Inl err \<Rightarrow> emit (EvWarningf ''failed to get user's home directory'') s
      | Inr home \<Rightarrow>
         (let s = s\<lparr>tester := (tester s)\<lparr>privateKey :=
                     filepath_Join w [home, ''.ssh'', ''google_compute_engine'']\<rparr>\<rparr>
          in if Stat s (privateKey (tester s)) then s
          else let publicKey = privateKey (tester s) @ ''.pub''
          in if Stat s publicKey then s
          else (case LookupEnv w ciPrivateKeyEnv of
            None \<Rightarrow> s
          | Some maybePrivateKey \<Rightarrow>
          (case LookupEnv w ciPublicKeyEnv of
            None \<Rightarrow> s
          | Some maybePublicKey \<Rightarrow>
          (case CopyFile w maybePrivateKey (privateKey (tester s)) s of
            (Some err, s) \<Rightarrow>
              emit (EvWarningf (''failed to copy '' @ maybePrivateKey @ '' to ''
                                 @ privateKey (tester s) @ '': '' @ err)) s
          | (None, s) \<Rightarrow>
          (case CopyFile w maybePublicKey publicKey s of
            (Some err, s) \<Rightarrow>
              emit (EvWarningf (''failed to copy '' @ maybePublicKey @ '' to ''
                                 @ publicKey @ '': '' @ err)) s
          | (None, s) \<Rightarrow> s))))))"

definition Test_cmd :: "World \<Rightarrow> Tester \<Rightarrow> Cmd" where
  "Test_cmd w t =
     (let args = [];
          args = args @ [target];
          args = args @ constructArgs (Duration_String w) t;
          cmd = Command ''make'' args;
          cmd = SetDir cmd (RepoRoot t)
      in InheritOutput cmd)"

definition Test :: "World \<Rightarrow> state \<Rightarrow> string option \<times> state" where
  "Test w s = Run w (Test_cmd w (tester s)) s"

subsection \<open>Execute\<close>

text \<open>
  Lines 140 to 167 of \<open>Execute\<close>: the keys and the project of provider gce. \<open>Inl\<close> is an
  early return with its error, \<open>Inr\<close> goes on.
\<close>

definition Execute_gce :: "World \<Rightarrow> state \<Rightarrow> (string \<times> state) + state" where
  "Execute_gce w s =
     (if Provider (tester s) = ''gce'' then
        let s = maybeSetupSSHKeys w s
        in if GCPProject (tester s) = '''' then
             (case NewClient w (BoskosLocation (tester s)) s of
               (Inl err, s) \<Rightarrow> Inl (''failed to make boskos client: '' @ err, s)
             | (Inr boskosClient, s) \<Rightarrow>
                (let s = s\<lparr>tester := (tester s)\<lparr>boskos := Some boskosClient\<rparr>\<rparr>
                 in (case Acquire w boskosClient (GCPProjectType (tester s))
                           (Seconds (BoskosAcquireTimeoutSeconds (tester s)))
                           (Seconds (BoskosHeartbeatIntervalSeconds (tester s))) s of
                      (Inl err, s) \<Rightarrow>
                        Inl (''init failed to get project from boskos: '' @ err, s)
                    | (Inr resource_Name, s) \<Rightarrow>
                        Inr (s\<lparr>tester := (tester s)\<lparr>GCPProject := resource_Name\<rparr>\<rparr>))))
           else Inr s
      else Inr s)"

text \<open>The deferred function of lines 169 to 181.\<close>

definition Execute_deferred :: "World \<Rightarrow> state \<Rightarrow> state" where
  "Execute_deferred w s =
     (case boskos (tester s) of
        None \<Rightarrow> s
      | Some c \<Rightarrow>
         (case Release w c [GCPProject (tester s)] s of
            (Some err, s) \<Rightarrow> emit (EvErrorf (''failed to release boskos project: '' @ err)) s
          | (None, s) \<Rightarrow> s))"

text \<open>
  \<open>Execute\<close>: the value it returns and the state it leaves. The deferred function runs
  on every return after line 181, and the returned error, which is not a named result,
  is fixed before it runs.
\<close>

definition Execute :: "World \<Rightarrow> state \<Rightarrow> string option \<times> state" where
  "Execute w s =
     (case gpflag_Parse w of
        Some err \<Rightarrow> (Some (''failed to initialize tester: '' @ err), s)
      | None \<Rightarrow>
     (case fs_Parse w of
        Some err \<Rightarrow> (Some (''failed to parse flags: '' @ err), s)
      | None \<Rightarrow>
     if helpFlag w then (None, emit EvPrintDefaults s)
     else (case validateFlags (tester s) of
        Some err \<Rightarrow> (Some (''failed to validate flags: '' @ err), s)
      | None \<Rightarrow>
     (let s = s\<lparr>tester := (tester s)\<lparr>sshUser :=
                (if Getenv w ''KUBE_SSH_USER'' \<noteq> '''' then Getenv w ''KUBE_SSH_USER''
                 else Getenv w ''USER'')\<rparr>\<rparr>
      in (case Execute_gce w s of
        Inl (err, s) \<Rightarrow> (Some err, s)
      | Inr s \<Rightarrow>
     (case (case WriteVersionToMetadata w (GitTag w) s of
             (Some err, s) \<Rightarrow> (Some err, s)
           | (None, s) \<Rightarrow> Test w s) of
        (ret, s) \<Rightarrow> (ret, Execute_deferred w s)))))))"

subsection \<open>Reading a trace\<close>

text \<open>A run of \<open>Execute\<close> starts with no event behind it.\<close>

definition start :: "Tester \<Rightarrow> (string \<rightharpoonup> string) \<Rightarrow> state" where
  "start t fs = \<lparr>tester = t, files = fs, trace = []\<rparr>"

text \<open>The calls to the boskos pool, the leases got and the releases asked for.\<close>

fun is_pool :: "event \<Rightarrow> bool" where
  "is_pool (EvNewClient loc r) = True"
| "is_pool (EvAcquire c ty timeout heartbeat r) = True"
| "is_pool (EvRelease c names r) = True"
| "is_pool e = False"

fun is_acquisition :: "event \<Rightarrow> bool" where
  "is_acquisition (EvNewClient loc r) = True"
| "is_acquisition (EvAcquire c ty timeout heartbeat r) = True"
| "is_acquisition e = False"

fun acquired :: "event \<Rightarrow> string list" where
  "acquired (EvAcquire c ty timeout heartbeat (Inr name)) = [name]"
| "acquired e = []"

fun released :: "event \<Rightarrow> string list list" where
  "released (EvRelease c names r) = [names]"
| "released e = []"

definition acquired_names :: "event list \<Rightarrow> string list" where
  "acquired_names tr = concat (map acquired tr)"

definition released_names :: "event list \<Rightarrow> string list list" where
  "released_names tr = concat (map released tr)"

text \<open>The copies of key files, and the events that belong to the key setup.\<close>

fun copies :: "event \<Rightarrow> (string \<times> string \<times> string option) list" where
  "copies (EvCopyFile src dst r) = [(src, dst, r)]"
| "copies e = []"

definition copied :: "event list \<Rightarrow> (string \<times> string \<times> string option) list" where
  "copied tr = concat (map copies tr)"

fun is_key_setup :: "event \<Rightarrow> bool" where
  "is_key_setup (EvCopyFile src dst r) = True"
| "is_key_setup (EvWarningf msg) = True"
| "is_key_setup e = False"

fun runs :: "event \<Rightarrow> Cmd list" where
  "runs (EvRun cmd r) = [cmd]"
| "runs e = []"

definition commands :: "event list \<Rightarrow> Cmd list" where
  "commands tr = concat (map runs tr)"

text \<open>The errors of the releases, and the errors written to the log.\<close>

fun release_errors_of :: "event \<Rightarrow> string list" where
  "release_errors_of (EvRelease c names (Some err)) = [err]"
| "release_errors_of e = []"

fun logged_errors_of :: "event \<Rightarrow> string list" where
  "logged_errors_of (EvErrorf msg) = [msg]"
| "logged_errors_of e = []"

definition release_errors :: "event list \<Rightarrow> string list" where
  "release_errors tr = concat (map release_errors_of tr)"

definition logged_errors :: "event list \<Rightarrow> string list" where
  "logged_errors tr = concat (map logged_errors_of tr)"

subsection \<open>Example worlds\<close>

text \<open>
  A \<open>fs.CopyFile\<close> that copies the contents when the source exists, and a
  \<open>filepath.Join\<close> for elements that need no cleaning.
\<close>

definition copy_contents :: "string \<Rightarrow> string \<Rightarrow> (string \<rightharpoonup> string)
    \<Rightarrow> string option \<times> (string \<rightharpoonup> string)" where
  "copy_contents src dst fs =
     (case fs src of
        None \<Rightarrow> (Some (''open '' @ src @ '': no such file or directory''), fs)
      | Some c \<Rightarrow> (None, fs(dst \<mapsto> c)))"

definition join_slash :: "string list \<Rightarrow> string" where
  "join_slash xs = (case xs of [] \<Rightarrow> [] | x # ys \<Rightarrow> foldl (\<lambda>a b. a @ ''/'' @ b) x ys)"

text \<open>A CI job: both key variables set, a pool that leases \<open>proj-123\<close>, a failing test.\<close>

definition ci_world :: World where
  "ci_world = \<lparr>
     gpflag_Parse = None,
     fs_Parse = None,
     helpFlag = False,
     environ = [''USER'' \<mapsto> ''prow'',
                ''GCE_SSH_PRIVATE_KEY_FILE'' \<mapsto> ''/etc/ssh-key-secret/ssh-private'',
                ''GCE_SSH_PUBLIC_KEY_FILE'' \<mapsto> ''/etc/ssh-key-secret/ssh-public''],
     UserHomeDir = Inr ''/root'',
     filepath_Join = join_slash,
     fs_CopyFile = copy_contents,
     boskos_NewClient = (\<lambda>loc. Inr (Client loc)),
     boskos_Acquire = (\<lambda>c ty timeout heartbeat. Inr ''proj-123''),
     boskos_Release = (\<lambda>c names. Some ''status 500''),
     testers_WriteVersionToMetadata = (\<lambda>tag. None),
     cmd_Run = (\<lambda>cmd. Some ''exit status 2''),
     GitTag = ''v0.0.0'',
     Duration_String = (\<lambda>d. ''0s'')\<rparr>"

definition ci_files :: "string \<rightharpoonup> string" where
  "ci_files = [''/etc/ssh-key-secret/ssh-private'' \<mapsto> ''PRIVATE'',
               ''/etc/ssh-key-secret/ssh-public'' \<mapsto> ''PUBLIC'']"

definition ci_tester :: Tester where
  "ci_tester = NewDefaultTester\<lparr>RepoRoot := ''/go/src/k8s.io/kubernetes'',
                                GCPZone := ''us-west1-b''\<rparr>"

section \<open>Properties\<close>

subsection \<open>Projections of the calls\<close>

lemma emit_simps [simp]:
  "tester (emit e s) = tester s"
  "files (emit e s) = files s"
  "trace (emit e s) = trace s @ [e]"
  by (simp_all add: emit_def)

lemma CopyFile_simps [simp]:
  "fst (CopyFile w a b s) = fst (fs_CopyFile w a b (files s))"
  "tester (snd (CopyFile w a b s)) = tester s"
  "files (snd (CopyFile w a b s)) = snd (fs_CopyFile w a b (files s))"
  "trace (snd (CopyFile w a b s)) =
     trace s @ [EvCopyFile a b (fst (fs_CopyFile w a b (files s)))]"
  by (simp_all add: CopyFile_def split_beta)

lemma Test_cmd_eq:
  "Test_cmd w t =
     \<lparr>Path = ''make'', Args = ''test-e2e-node'' # constructArgs (Duration_String w) t,
      Dir = RepoRoot t, InheritsOutput = True\<rparr>"
  by (simp add: Test_cmd_def Command_def SetDir_def InheritOutput_def target_def)

lemma NewClient_simps [simp]:
  "fst (NewClient w loc s) = boskos_NewClient w loc"
  "tester (snd (NewClient w loc s)) = tester s"
  "files (snd (NewClient w loc s)) = files s"
  "trace (snd (NewClient w loc s)) = trace s @ [EvNewClient loc (boskos_NewClient w loc)]"
  by (simp_all add: NewClient_def)

lemma Acquire_simps [simp]:
  "fst (Acquire w c ty a b s) = boskos_Acquire w c ty a b"
  "tester (snd (Acquire w c ty a b s)) = tester s"
  "files (snd (Acquire w c ty a b s)) = files s"
  "trace (snd (Acquire w c ty a b s)) = trace s @ [EvAcquire c ty a b (boskos_Acquire w c ty a b)]"
  by (simp_all add: Acquire_def)

lemma Release_simps [simp]:
  "fst (Release w c names s) = boskos_Release w c names"
  "tester (snd (Release w c names s)) =
     (tester s)\<lparr>boskosHeartbeatClose := stop_heartbeat (boskosHeartbeatClose (tester s))\<rparr>"
  "files (snd (Release w c names s)) = files s"
  "trace (snd (Release w c names s)) = trace s @ [EvRelease c names (boskos_Release w c names)]"
  by (simp_all add: Release_def)

lemma WriteVersionToMetadata_simps [simp]:
  "fst (WriteVersionToMetadata w tag s) = testers_WriteVersionToMetadata w tag"
  "tester (snd (WriteVersionToMetadata w tag s)) = tester s"
  "files (snd (WriteVersionToMetadata w tag s)) = files s"
  "trace (snd (WriteVersionToMetadata w tag s)) =
     trace s @ [EvWriteVersionToMetadata tag (testers_WriteVersionToMetadata w tag)]"
  by (simp_all add: WriteVersionToMetadata_def)

lemma Test_simps [simp]:
  "fst (Test w s) = cmd_Run w (Test_cmd w (tester s))"
  "tester (snd (Test w s)) = tester s"
  "files (snd (Test w s)) = files s"
  "trace (snd (Test w s)) =
     trace s @ [EvRun (Test_cmd w (tester s)) (cmd_Run w (Test_cmd w (tester s)))]"
  by (simp_all add: Test_def Run_def)

lemma start_simps [simp]:
  "tester (start t fs) = t"
  "files (start t fs) = fs"
  "trace (start t fs) = []"
  by (simp_all add: start_def)

lemma acquired_names_simps [simp]:
  "acquired_names [] = []"
  "acquired_names (xs @ ys) = acquired_names xs @ acquired_names ys"
  "acquired_names (e # xs) = acquired e @ acquired_names xs"
  by (simp_all add: acquired_names_def)

lemma released_names_simps [simp]:
  "released_names [] = []"
  "released_names (xs @ ys) = released_names xs @ released_names ys"
  "released_names (e # xs) = released e @ released_names xs"
  by (simp_all add: released_names_def)

lemma copied_simps [simp]:
  "copied [] = []"
  "copied (xs @ ys) = copied xs @ copied ys"
  "copied (e # xs) = copies e @ copied xs"
  by (simp_all add: copied_def)

lemma commands_simps [simp]:
  "commands [] = []"
  "commands (xs @ ys) = commands xs @ commands ys"
  "commands (e # xs) = runs e @ commands xs"
  by (simp_all add: commands_def)

subsection \<open>What the key setup leaves alone\<close>

lemma maybeSetupSSHKeys_tester:
  "tester (maybeSetupSSHKeys w s)
     = (tester s)\<lparr>privateKey := privateKey (tester (maybeSetupSSHKeys w s))\<rparr>"
  by (simp add: maybeSetupSSHKeys_def Let_def split_beta split: sum.split option.split)

lemma maybeSetupSSHKeys_privateKey:
  "privateKey (tester (maybeSetupSSHKeys w s))
     = (case UserHomeDir w of
          Inl err \<Rightarrow> privateKey (tester s)
        | Inr home \<Rightarrow> filepath_Join w [home, ''.ssh'', ''google_compute_engine''])"
  by (simp add: maybeSetupSSHKeys_def Let_def split_beta split: sum.split option.split)

lemma maybeSetupSSHKeys_trace:
  "\<exists>es. trace (maybeSetupSSHKeys w s) = trace s @ es \<and> list_all is_key_setup es"
  by (simp add: maybeSetupSSHKeys_def Let_def split_beta split: sum.split option.split)

lemma key_setup_no_pool:
  "list_all is_key_setup es \<Longrightarrow>
     filter is_pool es = [] \<and> acquired_names es = [] \<and> released_names es = []
     \<and> commands es = [] \<and> filter is_acquisition es = []"
  by (induction es) (auto elim: is_key_setup.elims)

lemma maybeSetupSSHKeys_fields [simp]:
  "boskos (tester (maybeSetupSSHKeys w s)) = boskos (tester s)"
  "GCPProject (tester (maybeSetupSSHKeys w s)) = GCPProject (tester s)"
  "GCPZone (tester (maybeSetupSSHKeys w s)) = GCPZone (tester s)"
  "Provider (tester (maybeSetupSSHKeys w s)) = Provider (tester s)"
  "RepoRoot (tester (maybeSetupSSHKeys w s)) = RepoRoot (tester s)"
  "BoskosLocation (tester (maybeSetupSSHKeys w s)) = BoskosLocation (tester s)"
  "boskosHeartbeatClose (tester (maybeSetupSSHKeys w s)) = boskosHeartbeatClose (tester s)"
  by (subst maybeSetupSSHKeys_tester, simp)+

lemma maybeSetupSSHKeys_fields2 [simp]:
  "GCPProjectType (tester (maybeSetupSSHKeys w s)) = GCPProjectType (tester s)"
  "BoskosAcquireTimeoutSeconds (tester (maybeSetupSSHKeys w s))
     = BoskosAcquireTimeoutSeconds (tester s)"
  "BoskosHeartbeatIntervalSeconds (tester (maybeSetupSSHKeys w s))
     = BoskosHeartbeatIntervalSeconds (tester s)"
  by (subst maybeSetupSSHKeys_tester, simp)+

lemma release_errors_simps [simp]:
  "release_errors [] = []"
  "release_errors (xs @ ys) = release_errors xs @ release_errors ys"
  "release_errors (e # xs) = release_errors_of e @ release_errors xs"
  by (simp_all add: release_errors_def)

lemma logged_errors_simps [simp]:
  "logged_errors [] = []"
  "logged_errors (xs @ ys) = logged_errors xs @ logged_errors ys"
  "logged_errors (e # xs) = logged_errors_of e @ logged_errors xs"
  by (simp_all add: logged_errors_def)

lemma key_setup_no_errors:
  "list_all is_key_setup es \<Longrightarrow> release_errors es = [] \<and> logged_errors es = []"
  by (induction es) (auto elim: is_key_setup.elims)

lemma maybeSetupSSHKeys_copied:
  "copied (trace (maybeSetupSSHKeys w s)) = copied (trace s)
   \<or> (\<exists>src err. copied (trace (maybeSetupSSHKeys w s))
          = copied (trace s) @ [(src, privateKey (tester (maybeSetupSSHKeys w s)), Some err)])
   \<or> (\<exists>src src' r. copied (trace (maybeSetupSSHKeys w s))
          = copied (trace s) @ [(src, privateKey (tester (maybeSetupSSHKeys w s)), None),
               (src', privateKey (tester (maybeSetupSSHKeys w s)) @ ''.pub'', r)])"
  by (simp add: maybeSetupSSHKeys_def Let_def split_beta split: sum.split option.split)

lemma maybeSetupSSHKeys_copy_indep:
  "tester (maybeSetupSSHKeys (w\<lparr>fs_CopyFile := cp\<rparr>) s) = tester (maybeSetupSSHKeys w s)"
  by (subst maybeSetupSSHKeys_tester, subst (2) maybeSetupSSHKeys_tester)
     (simp add: maybeSetupSSHKeys_privateKey split: sum.split)

lemma key_setup_filtered:
  "list_all is_key_setup es \<Longrightarrow> filter (\<lambda>e. \<not> is_key_setup e) es = []"
  by (induction es) auto

subsection \<open>The run of Execute\<close>

lemma Execute_run:
  assumes "u = (if Getenv w ''KUBE_SSH_USER'' \<noteq> '''' then Getenv w ''KUBE_SSH_USER''
                else Getenv w ''USER'')"
  shows "Execute w s =
     (case gpflag_Parse w of
        Some err \<Rightarrow> (Some (''failed to initialize tester: '' @ err), s)
      | None \<Rightarrow>
     (case fs_Parse w of
        Some err \<Rightarrow> (Some (''failed to parse flags: '' @ err), s)
      | None \<Rightarrow>
     if helpFlag w then (None, emit EvPrintDefaults s)
     else (case validateFlags (tester s) of
        Some err \<Rightarrow> (Some (''failed to validate flags: '' @ err), s)
      | None \<Rightarrow>
     (case Execute_gce w (s\<lparr>tester := (tester s)\<lparr>sshUser := u\<rparr>\<rparr>) of
        Inl (err, s) \<Rightarrow> (Some err, s)
      | Inr s \<Rightarrow>
     (case (case WriteVersionToMetadata w (GitTag w) s of
             (Some err, s) \<Rightarrow> (Some err, s)
           | (None, s) \<Rightarrow> Test w s) of
        (ret, s) \<Rightarrow> (ret, Execute_deferred w s))))))"
  unfolding Execute_def Let_def assms ..

lemma Execute_gce_given:
  "GCPProject (tester s) \<noteq> '''' \<Longrightarrow>
     Execute_gce w s = Inr (if Provider (tester s) = ''gce'' then maybeSetupSSHKeys w s else s)"
  by (simp add: Execute_gce_def Let_def)

lemma constructArgs_zone_project:
  "''ZONE='' @ GCPZone t \<in> set (constructArgs D t)"
  "''CLOUDSDK_CORE_PROJECT='' @ GCPProject t \<in> set (constructArgs D t)"
  by (simp_all add: constructArgs_def Let_def)

lemma constructArgs_boskosHeartbeatClose [simp]:
  "constructArgs D (t\<lparr>boskosHeartbeatClose := ch\<rparr>) = constructArgs D t"
  by (simp add: constructArgs_def Let_def)

lemma Execute_gce_eq:
  "Execute_gce w s =
     (if Provider (tester s) = ''gce'' then
        if GCPProject (tester s) = '''' then
          (case boskos_NewClient w (BoskosLocation (tester s)) of
             Inl err \<Rightarrow>
               Inl (''failed to make boskos client: '' @ err,
                    emit (EvNewClient (BoskosLocation (tester s)) (Inl err))
                      (maybeSetupSSHKeys w s))
           | Inr c \<Rightarrow>
              (case boskos_Acquire w c (GCPProjectType (tester s))
                      (Seconds (BoskosAcquireTimeoutSeconds (tester s)))
                      (Seconds (BoskosHeartbeatIntervalSeconds (tester s))) of
                 Inl err \<Rightarrow>
                   Inl (''init failed to get project from boskos: '' @ err,
                        (maybeSetupSSHKeys w s)
                          \<lparr>tester := (tester (maybeSetupSSHKeys w s))\<lparr>boskos := Some c\<rparr>,
                           trace := trace (maybeSetupSSHKeys w s)
                             @ [EvNewClient (BoskosLocation (tester s)) (Inr c),
                                EvAcquire c (GCPProjectType (tester s))
                                  (Seconds (BoskosAcquireTimeoutSeconds (tester s)))
                                  (Seconds (BoskosHeartbeatIntervalSeconds (tester s)))
                                  (Inl err)]\<rparr>)
               | Inr name \<Rightarrow>
                   Inr ((maybeSetupSSHKeys w s)
                          \<lparr>tester := (tester (maybeSetupSSHKeys w s))
                             \<lparr>boskos := Some c, GCPProject := name\<rparr>,
                           trace := trace (maybeSetupSSHKeys w s)
                             @ [EvNewClient (BoskosLocation (tester s)) (Inr c),
                                EvAcquire c (GCPProjectType (tester s))
                                  (Seconds (BoskosAcquireTimeoutSeconds (tester s)))
                                  (Seconds (BoskosHeartbeatIntervalSeconds (tester s)))
                                  (Inr name)]\<rparr>)))
        else Inr (maybeSetupSSHKeys w s)
      else Inr s)"
  by (simp add: Execute_gce_def Let_def split_beta NewClient_def Acquire_def emit_def
      split: sum.split)

lemma Execute_deferred_simps:
  "tester (Execute_deferred w s)
     = (case boskos (tester s) of
          None \<Rightarrow> tester s
        | Some c \<Rightarrow> (tester s)\<lparr>boskosHeartbeatClose :=
                       stop_heartbeat (boskosHeartbeatClose (tester s))\<rparr>)"
  "files (Execute_deferred w s) = files s"
  "trace (Execute_deferred w s)
     = trace s @
       (case boskos (tester s) of
          None \<Rightarrow> []
        | Some c \<Rightarrow>
            EvRelease c [GCPProject (tester s)] (boskos_Release w c [GCPProject (tester s)])
            # (case boskos_Release w c [GCPProject (tester s)] of
                 None \<Rightarrow> []
               | Some err \<Rightarrow> [EvErrorf (''failed to release boskos project: '' @ err)]))"
  by (simp_all add: Execute_deferred_def split_beta split: option.split)

lemma Execute_gce_cases [case_names pass noclient noacquire acquired]:
  obtains
    "\<not> (Provider (tester s) = ''gce'' \<and> GCPProject (tester s) = '''')"
    "Execute_gce w s = Inr (if Provider (tester s) = ''gce'' then maybeSetupSSHKeys w s else s)"
  | err where
    "Provider (tester s) = ''gce''" "GCPProject (tester s) = ''''"
    "boskos_NewClient w (BoskosLocation (tester s)) = Inl err"
    "Execute_gce w s =
       Inl (''failed to make boskos client: '' @ err,
            emit (EvNewClient (BoskosLocation (tester s)) (Inl err)) (maybeSetupSSHKeys w s))"
  | c err where
    "Provider (tester s) = ''gce''" "GCPProject (tester s) = ''''"
    "boskos_NewClient w (BoskosLocation (tester s)) = Inr c"
    "boskos_Acquire w c (GCPProjectType (tester s))
       (Seconds (BoskosAcquireTimeoutSeconds (tester s)))
       (Seconds (BoskosHeartbeatIntervalSeconds (tester s))) = Inl err"
    "Execute_gce w s =
       Inl (''init failed to get project from boskos: '' @ err,
            (maybeSetupSSHKeys w s)
              \<lparr>tester := (tester (maybeSetupSSHKeys w s))\<lparr>boskos := Some c\<rparr>,
               trace := trace (maybeSetupSSHKeys w s)
                 @ [EvNewClient (BoskosLocation (tester s)) (Inr c),
                    EvAcquire c (GCPProjectType (tester s))
                      (Seconds (BoskosAcquireTimeoutSeconds (tester s)))
                      (Seconds (BoskosHeartbeatIntervalSeconds (tester s))) (Inl err)]\<rparr>)"
  | c name where
    "Provider (tester s) = ''gce''" "GCPProject (tester s) = ''''"
    "boskos_NewClient w (BoskosLocation (tester s)) = Inr c"
    "boskos_Acquire w c (GCPProjectType (tester s))
       (Seconds (BoskosAcquireTimeoutSeconds (tester s)))
       (Seconds (BoskosHeartbeatIntervalSeconds (tester s))) = Inr name"
    "Execute_gce w s =
       Inr ((maybeSetupSSHKeys w s)
              \<lparr>tester := (tester (maybeSetupSSHKeys w s))\<lparr>boskos := Some c, GCPProject := name\<rparr>,
               trace := trace (maybeSetupSSHKeys w s)
                 @ [EvNewClient (BoskosLocation (tester s)) (Inr c),
                    EvAcquire c (GCPProjectType (tester s))
                      (Seconds (BoskosAcquireTimeoutSeconds (tester s)))
                      (Seconds (BoskosHeartbeatIntervalSeconds (tester s))) (Inr name)]\<rparr>)"
proof (cases "Provider (tester s) = ''gce'' \<and> GCPProject (tester s) = ''''")
  case False
  then show thesis
    using that(1) by (auto simp add: Execute_gce_eq)
next
  case True
  show thesis
  proof (cases "boskos_NewClient w (BoskosLocation (tester s))")
    case (Inl err)
    then show thesis
      using True that(2) [of err] by (simp add: Execute_gce_eq)
  next
    case client: (Inr c)
    show thesis
    proof (cases "boskos_Acquire w c (GCPProjectType (tester s))
                    (Seconds (BoskosAcquireTimeoutSeconds (tester s)))
                    (Seconds (BoskosHeartbeatIntervalSeconds (tester s)))")
      case (Inl err)
      then show thesis
        using True client that(3) [of c err] by (simp add: Execute_gce_eq)
    next
      case (Inr name)
      then show thesis
        using True client that(4) [of c name] by (simp add: Execute_gce_eq)
    qed
  qed
qed

lemma ci_run_acquired:
  "acquired_names (trace (snd (Execute ci_world (start ci_tester ci_files)))) = [''proj-123'']"
  by code_simp

lemma ci_run_ret:
  "fst (Execute ci_world (start ci_tester ci_files)) = Some ''exit status 2''"
  by code_simp


lemma given_run_commands:
  "commands (trace (snd (Execute ci_world
      (start (ci_tester\<lparr>GCPProject := ''my-project''\<rparr>) ci_files)))) \<noteq> []"
  by code_simp

lemma ci_run_release_errors:
  "release_errors (trace (snd (Execute ci_world (start ci_tester ci_files)))) = [''status 500'']"
  by code_simp

subsection \<open>The lease and its release\<close>

text \<open>
  C1. A tester as \<open>NewDefaultTester\<close> makes it has no boskos client, and the flag parsers
  write exported fields only. On every run of \<open>Execute\<close> from such a tester, whatever the
  outside answers (the metadata write and the test included), the releases asked of the
  pool are exactly the leases got, each release naming the one resource of its lease, and
  at most one lease is got. The calls to the pool are, in order: none; or a failed
  \<open>NewClient\<close>; or \<open>NewClient\<close> and a failed \<open>Acquire\<close>; or \<open>NewClient\<close>, a successful
  \<open>Acquire\<close> and, after it, one \<open>Release\<close> by the same client with the acquired name.
\<close>

theorem Execute_release_iff_acquired:
  assumes "boskos t = None"
  shows "released_names (trace (snd (Execute w (start t fs))))
           = map (\<lambda>name. [name]) (acquired_names (trace (snd (Execute w (start t fs)))))
         \<and> length (acquired_names (trace (snd (Execute w (start t fs))))) \<le> 1
         \<and> (filter is_pool (trace (snd (Execute w (start t fs)))) = []
            \<or> (\<exists>loc err. filter is_pool (trace (snd (Execute w (start t fs))))
                  = [EvNewClient loc (Inl err)])
            \<or> (\<exists>loc c ty a b err. filter is_pool (trace (snd (Execute w (start t fs))))
                  = [EvNewClient loc (Inr c), EvAcquire c ty a b (Inl err)])
            \<or> (\<exists>loc c ty a b name r. filter is_pool (trace (snd (Execute w (start t fs))))
                  = [EvNewClient loc (Inr c), EvAcquire c ty a b (Inr name),
                     EvRelease c [name] r]))"
proof -
  obtain u where u: "u = (if Getenv w ''KUBE_SSH_USER'' \<noteq> '''' then Getenv w ''KUBE_SSH_USER''
                          else Getenv w ''USER'')"
    by simp
  let ?s = "(start t fs)\<lparr>tester := t\<lparr>sshUser := u\<rparr>\<rparr>"
  obtain es where es: "trace (maybeSetupSSHKeys w ?s) = es" "list_all is_key_setup es"
    using maybeSetupSSHKeys_trace [of w ?s] by auto
  note no = key_setup_no_pool [OF es(2)]
  show ?thesis
    using no es(1) assms
    by (cases rule: Execute_gce_cases [where w = w and s = ?s])
       (simp_all add: Execute_run [OF u] Execute_deferred_simps split_beta split: option.split)
qed

text \<open>
  The CI job leases \<open>proj-123\<close>, its test fails, and the one release names \<open>proj-123\<close>.
\<close>

theorem Execute_release_iff_acquired_witness:
  "boskos ci_tester = None
   \<and> fst (Execute ci_world (start ci_tester ci_files)) = Some ''exit status 2''
   \<and> released_names (trace (snd (Execute ci_world (start ci_tester ci_files))))
       = [[''proj-123'']]"
proof -
  have h: "boskos ci_tester = None"
    by (simp add: ci_tester_def NewDefaultTester_def)
  show ?thesis
    using h Execute_release_iff_acquired [OF h, of ci_world ci_files]
    by (simp add: ci_run_acquired ci_run_ret)
qed

text \<open>
  C2. With provider gce and no zone, a run never reaches the pool: no client is made,
  nothing is acquired and nothing released. When both flag parsers succeed and help is
  not asked for, \<open>Execute\<close> returns the error of \<open>validateFlags\<close> and has done
  nothing before. A run that asks for help returns no error at all, which is why the
  validation error is promised only for runs that get as far as the validation.
\<close>

theorem Execute_zone_required:
  assumes "Provider t = ''gce''" and "GCPZone t = ''''"
  shows "filter is_pool (trace (snd (Execute w (start t fs)))) = []
         \<and> (gpflag_Parse w = None \<longrightarrow> fs_Parse w = None \<longrightarrow> \<not> helpFlag w \<longrightarrow>
              fst (Execute w (start t fs))
                = Some (''failed to validate flags: ''
                        @ (if RepoRoot t = '''' then ''required --repo-root''
                           else ''required --gcp-zone''))
              \<and> trace (snd (Execute w (start t fs))) = [])"
  using assms
  by (simp add: Execute_def validateFlags_def split: option.split)

text \<open>The default tester has provider gce and no zone; asked for help, it returns nil.\<close>

theorem Execute_zone_required_counterexample:
  "Provider NewDefaultTester = ''gce'' \<and> GCPZone NewDefaultTester = ''''
   \<and> fst (Execute (ci_world\<lparr>helpFlag := True\<rparr>) (start NewDefaultTester Map.empty)) = None"
  by (simp add: Execute_def NewDefaultTester_def ci_world_def)

theorem Execute_zone_required_witness:
  "Provider (NewDefaultTester\<lparr>RepoRoot := ''/k''\<rparr>) = ''gce''
   \<and> GCPZone (NewDefaultTester\<lparr>RepoRoot := ''/k''\<rparr>) = ''''
   \<and> gpflag_Parse ci_world = None \<and> fs_Parse ci_world = None \<and> \<not> helpFlag ci_world
   \<and> fst (Execute ci_world (start (NewDefaultTester\<lparr>RepoRoot := ''/k''\<rparr>) ci_files))
       = Some ''failed to validate flags: required --gcp-zone''
   \<and> trace (snd (Execute ci_world (start (NewDefaultTester\<lparr>RepoRoot := ''/k''\<rparr>) ci_files))) = []"
proof -
  have h: "Provider (NewDefaultTester\<lparr>RepoRoot := ''/k''\<rparr>) = ''gce''"
          "GCPZone (NewDefaultTester\<lparr>RepoRoot := ''/k''\<rparr>) = ''''"
    by (simp_all add: NewDefaultTester_def)
  have w: "gpflag_Parse ci_world = None" "fs_Parse ci_world = None" "\<not> helpFlag ci_world"
    by (simp_all add: ci_world_def)
  show ?thesis
    using h w Execute_zone_required [OF h, of ci_world ci_files]
    by simp
qed

text \<open>
  C3. With provider gce, a zone and a project, a run makes no boskos client and never
  calls \<open>Acquire\<close>; the sequence \<open>constructArgs\<close> builds from the tester the run
  leaves contains \<open>ZONE=\<close> and \<open>CLOUDSDK_CORE_PROJECT=\<close> followed by the configured
  values, and so do the arguments of every command the run starts.
\<close>

theorem Execute_project_given:
  assumes "Provider t = ''gce''" and "GCPZone t \<noteq> ''''" and "GCPProject t \<noteq> ''''"
  shows "filter is_acquisition (trace (snd (Execute w (start t fs)))) = []
         \<and> ''ZONE='' @ GCPZone t \<in> set (constructArgs D (tester (snd (Execute w (start t fs)))))
         \<and> ''CLOUDSDK_CORE_PROJECT='' @ GCPProject t
             \<in> set (constructArgs D (tester (snd (Execute w (start t fs)))))
         \<and> list_all (\<lambda>cmd. ''ZONE='' @ GCPZone t \<in> set (Args cmd)
                        \<and> ''CLOUDSDK_CORE_PROJECT='' @ GCPProject t \<in> set (Args cmd))
             (commands (trace (snd (Execute w (start t fs)))))"
proof -
  obtain u where u: "u = (if Getenv w ''KUBE_SSH_USER'' \<noteq> '''' then Getenv w ''KUBE_SSH_USER''
                          else Getenv w ''USER'')"
    by simp
  let ?s = "(start t fs)\<lparr>tester := t\<lparr>sshUser := u\<rparr>\<rparr>"
  let ?m = "maybeSetupSSHKeys w ?s"
  obtain es where es: "trace ?m = es" "list_all is_key_setup es"
    using maybeSetupSSHKeys_trace [of w ?s] by auto
  note no = key_setup_no_pool [OF es(2)]
  have g: "Execute_gce w ?s = Inr ?m"
    using assms by (simp add: Execute_gce_given)
  have z: "GCPZone (tester ?m) = GCPZone t" "GCPProject (tester ?m) = GCPProject t"
    by simp_all
  have a: "''ZONE='' @ GCPZone t \<in> set (constructArgs D' (tester ?m))"
          "''CLOUDSDK_CORE_PROJECT='' @ GCPProject t \<in> set (constructArgs D' (tester ?m))" for D'
    using constructArgs_zone_project [of "tester ?m" D'] by (simp_all only: z)
  show ?thesis
    using no es(1) a constructArgs_zone_project [of t D]
    by (simp add: Execute_run [OF u] g Execute_deferred_def split_beta Test_cmd_eq
        split: option.split)
qed

text \<open>The CI job with a project of its own: make is started, with both entries.\<close>

theorem Execute_project_given_witness:
  "Provider (ci_tester\<lparr>GCPProject := ''my-project''\<rparr>) = ''gce''
   \<and> GCPZone (ci_tester\<lparr>GCPProject := ''my-project''\<rparr>) \<noteq> ''''
   \<and> GCPProject (ci_tester\<lparr>GCPProject := ''my-project''\<rparr>) \<noteq> ''''
   \<and> filter is_acquisition (trace (snd (Execute ci_world
         (start (ci_tester\<lparr>GCPProject := ''my-project''\<rparr>) ci_files)))) = []
   \<and> commands (trace (snd (Execute ci_world
         (start (ci_tester\<lparr>GCPProject := ''my-project''\<rparr>) ci_files)))) \<noteq> []
   \<and> list_all (\<lambda>cmd. ''ZONE=us-west1-b'' \<in> set (Args cmd)
                  \<and> ''CLOUDSDK_CORE_PROJECT=my-project'' \<in> set (Args cmd))
       (commands (trace (snd (Execute ci_world
         (start (ci_tester\<lparr>GCPProject := ''my-project''\<rparr>) ci_files)))))"
proof -
  let ?t = "ci_tester\<lparr>GCPProject := ''my-project''\<rparr>"
  have h: "Provider ?t = ''gce''" "GCPZone ?t \<noteq> ''''" "GCPProject ?t \<noteq> ''''"
    by (simp_all add: ci_tester_def NewDefaultTester_def)
  have v: "GCPZone ?t = ''us-west1-b''" "GCPProject ?t = ''my-project''"
    by (simp_all add: ci_tester_def NewDefaultTester_def)
  show ?thesis
    using h given_run_commands
      Execute_project_given [OF h, of ci_world ci_files "Duration_String ci_world"]
    by (simp only: v append.simps) simp
qed

subsection \<open>The parameters handed to make\<close>

text \<open>
  C4. With an empty \<open>RuntimeConfig\<close> no element of the sequence returned by
  \<open>constructArgs\<close> begins with \<open>RUNTIME_CONFIG=\<close>; with a non-empty one exactly one
  element does, it is \<open>RUNTIME_CONFIG=\<close> followed by the value, and it is the last
  element.
\<close>

theorem constructArgs_runtime_config:
  "(if RuntimeConfig t = ''''
    then filter (prefix ''RUNTIME_CONFIG='') (constructArgs D t) = []
    else filter (prefix ''RUNTIME_CONFIG='') (constructArgs D t)
           = [''RUNTIME_CONFIG='' @ RuntimeConfig t]
         \<and> last (constructArgs D t) = ''RUNTIME_CONFIG='' @ RuntimeConfig t)"
  by (simp add: constructArgs_def)

theorem constructArgs_runtime_config_witness:
  "filter (prefix ''RUNTIME_CONFIG='') (constructArgs (\<lambda>d. ''0s'') ci_tester) = []
   \<and> filter (prefix ''RUNTIME_CONFIG='')
        (constructArgs (\<lambda>d. ''0s'') (ci_tester\<lparr>RuntimeConfig := ''foo=bar''\<rparr>))
      = [''RUNTIME_CONFIG=foo=bar'']
   \<and> last (constructArgs (\<lambda>d. ''0s'') (ci_tester\<lparr>RuntimeConfig := ''foo=bar''\<rparr>))
      = ''RUNTIME_CONFIG=foo=bar''"
  using constructArgs_runtime_config [of ci_tester "\<lambda>d. ''0s''"]
    constructArgs_runtime_config [of "ci_tester\<lparr>RuntimeConfig := ''foo=bar''\<rparr>" "\<lambda>d. ''0s''"]
  by (simp add: ci_tester_def NewDefaultTester_def)

text \<open>
  C5. Every key other than \<open>RUNTIME_CONFIG\<close> should be followed by \<open>=\<close> and then the
  value, with nothing between. The entry of \<open>NODE_ENV\<close> is built from the literal
  \<open>NODE_ENV= \<close>, which ends in a space: with \<open>NodeEnv\<close> set to \<open>FOO=bar\<close> the eighth
  element is \<open>NODE_ENV= FOO=bar\<close>, and \<open>NODE_ENV=FOO=bar\<close> is no element at all.
\<close>

theorem constructArgs_node_env_space:
  "constructArgs (Duration_String ci_world) (ci_tester\<lparr>NodeEnv := ''FOO=bar''\<rparr>) ! 7
     = ''NODE_ENV= FOO=bar''
   \<and> ''NODE_ENV=FOO=bar''
     \<notin> set (constructArgs (Duration_String ci_world) (ci_tester\<lparr>NodeEnv := ''FOO=bar''\<rparr>))"
  by (simp add: constructArgs_def ci_tester_def NewDefaultTester_def ci_world_def
      FormatBool_def)

text \<open>
  C10. The sequence of \<open>constructArgs\<close> begins with \<open>REMOTE=true\<close>. The command of
  \<open>Test\<close> is \<open>make\<close> with the target \<open>test-e2e-node\<close> followed by that sequence, in
  the directory \<open>RepoRoot\<close>, with the output streams of the caller; \<open>Test\<close> runs it and
  returns what it returns. Every command a run of \<open>Execute\<close> starts is of this form.
\<close>

theorem Test_runs_make:
  "take 1 (constructArgs D t) = [''REMOTE=true'']
   \<and> Test_cmd w t
       = \<lparr>Path = ''make'', Args = ''test-e2e-node'' # constructArgs (Duration_String w) t,
          Dir = RepoRoot t, InheritsOutput = True\<rparr>
   \<and> fst (Test w s) = cmd_Run w (Test_cmd w (tester s))
   \<and> trace (snd (Test w s))
       = trace s @ [EvRun (Test_cmd w (tester s)) (cmd_Run w (Test_cmd w (tester s)))]
   \<and> list_all (\<lambda>cmd. Path cmd = ''make''
                  \<and> take 2 (Args cmd) = [''test-e2e-node'', ''REMOTE=true'']
                  \<and> Dir cmd = RepoRoot t \<and> InheritsOutput cmd)
       (commands (trace (snd (Execute w (start t fs)))))"
proof -
  obtain u where u: "u = (if Getenv w ''KUBE_SSH_USER'' \<noteq> '''' then Getenv w ''KUBE_SSH_USER''
                          else Getenv w ''USER'')"
    by simp
  let ?s = "(start t fs)\<lparr>tester := t\<lparr>sshUser := u\<rparr>\<rparr>"
  obtain es where es: "trace (maybeSetupSSHKeys w ?s) = es" "list_all is_key_setup es"
    using maybeSetupSSHKeys_trace [of w ?s] by auto
  note no = key_setup_no_pool [OF es(2)]
  have r: "take 1 (constructArgs D' t') = [''REMOTE=true'']" for D' t'
    by (simp add: constructArgs_def Let_def)
  have r2: "take (Suc 0) (constructArgs D' t') = [''REMOTE=true'']" for D' t'
    by (simp add: constructArgs_def Let_def)
  have "list_all (\<lambda>cmd. Path cmd = ''make''
                  \<and> take 2 (Args cmd) = [''test-e2e-node'', ''REMOTE=true'']
                  \<and> Dir cmd = RepoRoot t \<and> InheritsOutput cmd)
       (commands (trace (snd (Execute w (start t fs)))))"
    using no es(1)
    by (cases rule: Execute_gce_cases [where w = w and s = ?s])
       (simp_all add: Execute_run [OF u] Execute_deferred_simps split_beta Test_cmd_eq r2
          split: option.split)
  then show ?thesis
    using r [of D t] by (simp add: Test_cmd_eq)
qed

subsection \<open>The key setup\<close>

text \<open>
  C6. When the home directory is known and a file exists at the private-key path built
  from it, or at that path with \<open>.pub\<close> appended, \<open>maybeSetupSSHKeys\<close> copies nothing
  and leaves the whole file system as it was, whatever the environment holds.
\<close>

theorem maybeSetupSSHKeys_keeps_existing_keys:
  assumes "UserHomeDir w = Inr home"
    and "key = filepath_Join w [home, ''.ssh'', ''google_compute_engine'']"
    and "files s key \<noteq> None \<or> files s (key @ ''.pub'') \<noteq> None"
  shows "files (maybeSetupSSHKeys w s) = files s
         \<and> trace (maybeSetupSSHKeys w s) = trace s
         \<and> privateKey (tester (maybeSetupSSHKeys w s)) = key"
  using assms
  by (auto simp add: maybeSetupSSHKeys_def Let_def Stat_def)

text \<open>The CI job, both key variables set, with an old private key in place.\<close>

theorem maybeSetupSSHKeys_keeps_existing_keys_witness:
  "UserHomeDir ci_world = Inr ''/root''
   \<and> ''/root/.ssh/google_compute_engine''
       = filepath_Join ci_world [''/root'', ''.ssh'', ''google_compute_engine'']
   \<and> files (start ci_tester (ci_files(''/root/.ssh/google_compute_engine'' \<mapsto> ''OLD'')))
         ''/root/.ssh/google_compute_engine'' = Some ''OLD''
   \<and> environ ci_world ciPrivateKeyEnv = Some ''/etc/ssh-key-secret/ssh-private''
   \<and> environ ci_world ciPublicKeyEnv = Some ''/etc/ssh-key-secret/ssh-public''
   \<and> files (maybeSetupSSHKeys ci_world
        (start ci_tester (ci_files(''/root/.ssh/google_compute_engine'' \<mapsto> ''OLD''))))
       = ci_files(''/root/.ssh/google_compute_engine'' \<mapsto> ''OLD'')
   \<and> trace (maybeSetupSSHKeys ci_world
        (start ci_tester (ci_files(''/root/.ssh/google_compute_engine'' \<mapsto> ''OLD'')))) = []"
proof -
  let ?s = "start ci_tester (ci_files(''/root/.ssh/google_compute_engine'' \<mapsto> ''OLD''))"
  have h1: "UserHomeDir ci_world = Inr ''/root''"
    by (simp add: ci_world_def)
  have h2: "''/root/.ssh/google_compute_engine''
       = filepath_Join ci_world [''/root'', ''.ssh'', ''google_compute_engine'']"
    by (simp add: ci_world_def join_slash_def)
  have h3: "files ?s ''/root/.ssh/google_compute_engine'' \<noteq> None
      \<or> files ?s (''/root/.ssh/google_compute_engine'' @ ''.pub'') \<noteq> None"
    by simp
  have e: "environ ci_world ciPrivateKeyEnv = Some ''/etc/ssh-key-secret/ssh-private''"
          "environ ci_world ciPublicKeyEnv = Some ''/etc/ssh-key-secret/ssh-public''"
    by (simp_all add: ci_world_def ciPrivateKeyEnv_def ciPublicKeyEnv_def)
  show ?thesis
    using h1 h2 h3 e maybeSetupSSHKeys_keeps_existing_keys [OF h1 h2 h3]
    by simp
qed

text \<open>
  C7. In \<open>maybeSetupSSHKeys\<close> there is no copy, or one failed copy to the private-key
  path, or a successful copy to the private-key path followed by one copy to the
  public-key path: the public key is copied only after the private key was. And the copies
  decide nothing else: with every other answer of the outside held fixed, whatever
  \<open>fs.CopyFile\<close> does, \<open>Execute\<close> returns the same value and, the copies and warnings
  apart, does the same things, the command with its \<open>SSH_KEY\<close> entry included.
\<close>

theorem key_copy_failures_not_fatal:
  "(copied (trace (maybeSetupSSHKeys w (start t fs))) = []
    \<or> (\<exists>src err. copied (trace (maybeSetupSSHKeys w (start t fs)))
          = [(src, privateKey (tester (maybeSetupSSHKeys w (start t fs))), Some err)])
    \<or> (\<exists>src src' r. copied (trace (maybeSetupSSHKeys w (start t fs)))
          = [(src, privateKey (tester (maybeSetupSSHKeys w (start t fs))), None),
             (src', privateKey (tester (maybeSetupSSHKeys w (start t fs))) @ ''.pub'', r)]))
   \<and> fst (Execute (w\<lparr>fs_CopyFile := cp\<rparr>) (start t fs)) = fst (Execute w (start t fs))
   \<and> filter (\<lambda>e. \<not> is_key_setup e) (trace (snd (Execute (w\<lparr>fs_CopyFile := cp\<rparr>) (start t fs))))
       = filter (\<lambda>e. \<not> is_key_setup e) (trace (snd (Execute w (start t fs))))"
proof -
  let ?w = "w\<lparr>fs_CopyFile := cp\<rparr>"
  obtain u where u: "u = (if Getenv w ''KUBE_SSH_USER'' \<noteq> '''' then Getenv w ''KUBE_SSH_USER''
                          else Getenv w ''USER'')"
    by simp
  have u': "u = (if Getenv ?w ''KUBE_SSH_USER'' \<noteq> '''' then Getenv ?w ''KUBE_SSH_USER''
                          else Getenv ?w ''USER'')"
    using u by (simp add: Getenv_def)
  let ?s = "(start t fs)\<lparr>tester := t\<lparr>sshUser := u\<rparr>\<rparr>"
  obtain es where es: "trace (maybeSetupSSHKeys w ?s) = es" "list_all is_key_setup es"
    using maybeSetupSSHKeys_trace [of w ?s] by auto
  obtain es' where es': "trace (maybeSetupSSHKeys ?w ?s) = es'" "list_all is_key_setup es'"
    using maybeSetupSSHKeys_trace [of ?w ?s] by auto
  note f = key_setup_filtered [OF es(2)] key_setup_filtered [OF es'(2)]
  note i = maybeSetupSSHKeys_copy_indep [where w = w and cp = cp and s = ?s]
  have a: "fst (Execute ?w (start t fs)) = fst (Execute w (start t fs))
    \<and> filter (\<lambda>e. \<not> is_key_setup e) (trace (snd (Execute ?w (start t fs))))
       = filter (\<lambda>e. \<not> is_key_setup e) (trace (snd (Execute w (start t fs))))"
    using f es(1) es'(1) i
    by (cases rule: Execute_gce_cases [where w = w and s = ?s])
       (simp_all add: Execute_run [OF u] Execute_run [OF u']
          Execute_gce_eq [where w = ?w and s = ?s]
          Execute_deferred_simps split_beta Test_cmd_eq
          split: option.split)
  show ?thesis
    using a maybeSetupSSHKeys_copied [of w "start t fs"] by simp
qed

text \<open>The CI job with a \<open>fs.CopyFile\<close> that always fails still returns the result of the test.\<close>

theorem key_copy_failures_not_fatal_witness:
  "fst (Execute (ci_world\<lparr>fs_CopyFile := (\<lambda>src dst fs. (Some ''permission denied'', fs))\<rparr>)
         (start ci_tester ci_files)) = Some ''exit status 2''"
  using key_copy_failures_not_fatal
    [of ci_world ci_tester ci_files "\<lambda>src dst fs. (Some ''permission denied'', fs)"]
  by (simp add: ci_run_ret)

subsection \<open>The outcome of the release\<close>

text \<open>
  C8. On a run that got a lease, the value \<open>Execute\<close> returns is the same whatever
  \<open>boskos.Release\<close> answers: it is the error of the metadata write, or else what the test
  command returned. The errors of \<open>Release\<close> go to the log, one line for each, and nowhere
  else.
\<close>

theorem release_error_swallowed:
  assumes "acquired_names (trace (snd (Execute w (start t fs)))) \<noteq> []"
  shows "fst (Execute (w\<lparr>boskos_Release := rel\<rparr>) (start t fs)) = fst (Execute w (start t fs))
         \<and> fst (Execute w (start t fs))
             = (case testers_WriteVersionToMetadata w (GitTag w) of
                  Some err \<Rightarrow> Some err
                | None \<Rightarrow> cmd_Run w (Test_cmd w (tester (snd (Execute w (start t fs))))))
         \<and> logged_errors (trace (snd (Execute w (start t fs))))
             = map (\<lambda>err. ''failed to release boskos project: '' @ err)
                 (release_errors (trace (snd (Execute w (start t fs)))))"
proof -
  let ?w = "w\<lparr>boskos_Release := rel\<rparr>"
  obtain u where u: "u = (if Getenv w ''KUBE_SSH_USER'' \<noteq> '''' then Getenv w ''KUBE_SSH_USER''
                          else Getenv w ''USER'')"
    by simp
  have u': "u = (if Getenv ?w ''KUBE_SSH_USER'' \<noteq> '''' then Getenv ?w ''KUBE_SSH_USER''
                          else Getenv ?w ''USER'')"
    using u by (simp add: Getenv_def)
  let ?s = "(start t fs)\<lparr>tester := t\<lparr>sshUser := u\<rparr>\<rparr>"
  obtain es where es: "trace (maybeSetupSSHKeys w ?s) = es" "list_all is_key_setup es"
    using maybeSetupSSHKeys_trace [of w ?s] by auto
  note no = key_setup_no_pool [OF es(2)] key_setup_no_errors [OF es(2)]
  have m: "maybeSetupSSHKeys ?w ?s = maybeSetupSSHKeys w ?s"
  proof -
    have r: "UserHomeDir ?w = UserHomeDir w" "filepath_Join ?w = filepath_Join w"
      "LookupEnv ?w = LookupEnv w" "CopyFile ?w = CopyFile w"
      by (simp_all add: LookupEnv_def CopyFile_def fun_eq_iff)
    show ?thesis
      unfolding maybeSetupSSHKeys_def r ..
  qed
  have c: "Test_cmd ?w t' = Test_cmd w t'" for t'
    by (simp add: Test_cmd_eq)
  have p: "gpflag_Parse w = None" "fs_Parse w = None" "\<not> helpFlag w" "validateFlags t = None"
    using assms by (auto simp add: Execute_def split: option.splits if_splits)
  show ?thesis
    using no es(1) assms p
    by (cases rule: Execute_gce_cases [where w = w and s = ?s])
       (simp_all add: Execute_run [OF u] Execute_run [OF u']
          Execute_gce_eq [where w = ?w and s = ?s] m
          Execute_deferred_simps split_beta Test_cmd_eq
          split: option.split)
qed

text \<open>
  The CI job: the release fails with \<open>status 500\<close>, which is logged, and the run returns
  the result of the test, as it does when the release succeeds.
\<close>

theorem release_error_swallowed_witness:
  "acquired_names (trace (snd (Execute ci_world (start ci_tester ci_files)))) = [''proj-123'']
   \<and> release_errors (trace (snd (Execute ci_world (start ci_tester ci_files)))) = [''status 500'']
   \<and> fst (Execute (ci_world\<lparr>boskos_Release := (\<lambda>c names. None)\<rparr>) (start ci_tester ci_files))
       = Some ''exit status 2''
   \<and> fst (Execute ci_world (start ci_tester ci_files)) = Some ''exit status 2''
   \<and> logged_errors (trace (snd (Execute ci_world (start ci_tester ci_files))))
       = [''failed to release boskos project: status 500'']"
proof -
  have h: "acquired_names (trace (snd (Execute ci_world (start ci_tester ci_files)))) \<noteq> []"
    by (simp add: ci_run_acquired)
  show ?thesis
    using release_error_swallowed [OF h, of "\<lambda>c names. None"]
    by (simp add: ci_run_acquired ci_run_ret ci_run_release_errors)
qed

subsection \<open>The stop signal of the heartbeat\<close>

text \<open>
  C9. The only place where \<open>Execute\<close> hands the channel to something that triggers the
  stop signal is the call of \<open>Release\<close> in the deferred function, and a run makes at
  most one such call: the channel is as it was when no release was asked for, and
  triggered once otherwise. With the stop signal as the spec describes it, triggering it
  a second time changes nothing, and neither does running the deferred cleanup twice.
\<close>

theorem heartbeat_stopped_at_most_once:
  "length (released_names (trace (snd (Execute w (start t fs))))) \<le> 1
   \<and> boskosHeartbeatClose (tester (snd (Execute w (start t fs))))
       = (if released_names (trace (snd (Execute w (start t fs)))) = []
          then boskosHeartbeatClose t else stop_heartbeat (boskosHeartbeatClose t))
   \<and> stop_heartbeat (stop_heartbeat ch) = stop_heartbeat ch
   \<and> boskosHeartbeatClose (tester (Execute_deferred w (Execute_deferred w s)))
       = boskosHeartbeatClose (tester (Execute_deferred w s))"
proof -
  obtain u where u: "u = (if Getenv w ''KUBE_SSH_USER'' \<noteq> '''' then Getenv w ''KUBE_SSH_USER''
                          else Getenv w ''USER'')"
    by simp
  let ?s = "(start t fs)\<lparr>tester := t\<lparr>sshUser := u\<rparr>\<rparr>"
  obtain es where es: "trace (maybeSetupSSHKeys w ?s) = es" "list_all is_key_setup es"
    using maybeSetupSSHKeys_trace [of w ?s] by auto
  note no = key_setup_no_pool [OF es(2)]
  have a: "length (released_names (trace (snd (Execute w (start t fs))))) \<le> 1
    \<and> boskosHeartbeatClose (tester (snd (Execute w (start t fs))))
       = (if released_names (trace (snd (Execute w (start t fs)))) = []
          then boskosHeartbeatClose t else stop_heartbeat (boskosHeartbeatClose t))"
    using no es(1)
    by (cases rule: Execute_gce_cases [where w = w and s = ?s])
       (simp_all add: Execute_run [OF u] Execute_deferred_simps split_beta split: option.split)
  have b: "boskosHeartbeatClose (tester (Execute_deferred w (Execute_deferred w s)))
       = boskosHeartbeatClose (tester (Execute_deferred w s))"
    by (simp add: Execute_deferred_simps stop_heartbeat_def split: option.split)
  show ?thesis
    using a b by (simp add: stop_heartbeat_def)
qed

end
